theory Spec2Isabelle
  imports Main "HOL-Library.Word"
begin

section \<open>Data model of \<^verbatim>\<open>miot/decoder.py\<close>\<close>

text \<open>
  The module \<^verbatim>\<open>miot/types.py\<close> is imported by the decoder but is not part of the
  sources at hand, so the three types it supplies are declared here from their uses in
  \<^verbatim>\<open>decoder.py\<close>. The decoder compares \<^verbatim>\<open>frame_type\<close> with \<^verbatim>\<open>FRAME_I\<close> only and
  \<^verbatim>\<open>codec_id\<close> with \<^verbatim>\<open>VIDEO_H264\<close>, \<^verbatim>\<open>VIDEO_H265\<close> and \<^verbatim>\<open>AUDIO_OPUS\<close> only; every other
  member of either enumeration behaves alike and is represented by one more constructor.
  Of a frame record the decoder reads \<^verbatim>\<open>codec_id\<close>, \<^verbatim>\<open>frame_type\<close>, \<^verbatim>\<open>timestamp\<close>,
  \<^verbatim>\<open>channel\<close> and \<^verbatim>\<open>data\<close>.
\<close>

type_synonym bytes = "8 word list"

datatype MIoTCameraFrameType = FRAME_I | FRAME_P

datatype MIoTCameraCodec = VIDEO_H264 | VIDEO_H265 | AUDIO_OPUS | CODEC_OTHER nat

record MIoTCameraFrameData =
  codec_id :: MIoTCameraCodec
  frame_type :: MIoTCameraFrameType
  timestamp :: int
  channel :: int
  data :: bytes

text \<open>
  Exceptions are values. \<^verbatim>\<open>AttributeError\<close> is what Python raises on reading or deleting
  an attribute that is absent and on calling a method of \<^verbatim>\<open>None\<close>; \<^verbatim>\<open>IndexError\<close> is what
  \<^verbatim>\<open>deque.popleft\<close> raises on an empty deque; \<^verbatim>\<open>ValueError\<close> is what \<^verbatim>\<open>deque(maxlen=n)\<close>
  raises for a negative \<^verbatim>\<open>n\<close>; \<^verbatim>\<open>RuntimeError\<close> is what \<^verbatim>\<open>call_soon_threadsafe\<close> raises on a
  closed event loop; \<^verbatim>\<open>LibraryError\<close> stands for any exception of the codec and imaging
  libraries. A method that returns \<^verbatim>\<open>None\<close> yields \<open>error option \<times> state\<close>: \<open>None\<close> when it
  returned, \<open>Some e\<close> when it raised \<open>e\<close>, and in both cases the state the object is left in.
\<close>

datatype error =
    AttributeError
  | IndexError
  | ValueError
  | RuntimeError
  | MIoTMediaDecoderError
  | LibraryError nat

section \<open>The ring buffer\<close>

text \<open>
  \<^verbatim>\<open>collections.deque(maxlen=n)\<close>: a list whose front is index 0. \<^verbatim>\<open>append\<close> adds at the
  right and, when the bound is then exceeded, discards the leftmost element.
\<close>

definition deque_append :: "int \<Rightarrow> 'a list \<Rightarrow> 'a \<Rightarrow> 'a list" where
  "deque_append n xs x =
     (let ys = xs @ [x] in if int (length ys) > n then tl ys else ys)"

text \<open>
  The fields of \<^verbatim>\<open>MIoTMediaRingBuffer\<close>. The condition object itself carries no data that
  the claims depend on; what matters is whether the attribute \<^verbatim>\<open>_cond\<close> exists, since
  \<^verbatim>\<open>stop\<close> deletes it.
\<close>

record MIoTMediaRingBuffer =
  maxlen :: int
  video_buffer :: "MIoTCameraFrameData list"
  audio_buffer :: "MIoTCameraFrameData list"
  has_cond :: bool

definition MIoTMediaRingBuffer_init :: "int \<Rightarrow> error + MIoTMediaRingBuffer" where
  "MIoTMediaRingBuffer_init n =
     (if n < 0 then Inl ValueError
      else Inr \<lparr>maxlen = n, video_buffer = [], audio_buffer = [], has_cond = True\<rparr>)"

text \<open>
  The scan of \<^verbatim>\<open>put_video\<close>: \<^verbatim>\<open>for i in range(len(buf)): if buf[i] is not an I frame:
  del buf[i]; removed = True; break\<close>. The result is the flag \<^verbatim>\<open>removed\<close> and the lane.
\<close>

fun del_first_non_I :: "MIoTCameraFrameData list \<Rightarrow> bool \<times> MIoTCameraFrameData list" where
  "del_first_non_I [] = (False, [])"
| "del_first_non_I (x # xs) =
     (if frame_type x \<noteq> FRAME_I then (True, xs)
      else (case del_first_non_I xs of (removed, ys) \<Rightarrow> (removed, x # ys)))"

definition put_video ::
  "MIoTCameraFrameData \<Rightarrow> MIoTMediaRingBuffer \<Rightarrow> error option \<times> MIoTMediaRingBuffer" where
  "put_video item b =
     (if \<not> has_cond b then (Some AttributeError, b)
      else if int (length (video_buffer b)) \<ge> maxlen b then
        (if frame_type item = FRAME_I then
           (case del_first_non_I (video_buffer b) of
              (True, ys) \<Rightarrow> (None, b\<lparr>video_buffer := deque_append (maxlen b) ys item\<rparr>)
            | (False, ys) \<Rightarrow>
                (case ys of
                   [] \<Rightarrow> (Some IndexError, b)
                 | y # ys' \<Rightarrow> (None, b\<lparr>video_buffer := deque_append (maxlen b) ys' item\<rparr>)))
         else (None, b))
      else (None, b\<lparr>video_buffer := deque_append (maxlen b) (video_buffer b) item\<rparr>))"

definition put_audio ::
  "MIoTCameraFrameData \<Rightarrow> MIoTMediaRingBuffer \<Rightarrow> error option \<times> MIoTMediaRingBuffer" where
  "put_audio item b =
     (if \<not> has_cond b then (Some AttributeError, b)
      else (None, b\<lparr>audio_buffer := deque_append (maxlen b) (audio_buffer b) item\<rparr>))"

text \<open>
  \<^verbatim>\<open>step\<close> has two parts. Under the lock it picks a frame and a handler, or waits on the
  condition for at most \<^verbatim>\<open>timeout\<close> seconds; the three outcomes are the constructors of
  \<open>fetched\<close>. Outside the lock it calls the chosen handler if a frame was picked. The test
  \<^verbatim>\<open>if frame_data:\<close> is the truth value of the frame object, which is true for every
  instance of a class that defines neither \<^verbatim>\<open>__bool__\<close> nor \<^verbatim>\<open>__len__\<close>. The handlers act on
  the state \<open>'s\<close> of their owner and may raise.
\<close>

datatype fetched =
    Video_frame MIoTCameraFrameData
  | Audio_frame MIoTCameraFrameData
  | Waited

definition step_get_frame :: "MIoTMediaRingBuffer \<Rightarrow> error + (fetched \<times> MIoTMediaRingBuffer)" where
  "step_get_frame b =
     (if \<not> has_cond b then Inl AttributeError
      else (case video_buffer b of
              v # vs \<Rightarrow> Inr (Video_frame v, b\<lparr>video_buffer := vs\<rparr>)
            | [] \<Rightarrow>
                (case audio_buffer b of
                   a # as \<Rightarrow> Inr (Audio_frame a, b\<lparr>audio_buffer := as\<rparr>)
                 | [] \<Rightarrow> Inr (Waited, b))))"

definition step ::
  "(MIoTCameraFrameData \<Rightarrow> 's \<Rightarrow> error option \<times> 's) \<Rightarrow>
   (MIoTCameraFrameData \<Rightarrow> 's \<Rightarrow> error option \<times> 's) \<Rightarrow>
   MIoTMediaRingBuffer \<Rightarrow> 's \<Rightarrow> error option \<times> MIoTMediaRingBuffer \<times> 's" where
  "step on_video_frame on_audio_frame b s =
     (case step_get_frame b of
        Inl e \<Rightarrow> (Some e, b, s)
      | Inr (Video_frame v, b') \<Rightarrow>
          (case on_video_frame v s of (r, s') \<Rightarrow> (r, b', s'))
      | Inr (Audio_frame a, b') \<Rightarrow>
          (case on_audio_frame a s of (r, s') \<Rightarrow> (r, b', s'))
      | Inr (Waited, b') \<Rightarrow> (None, b', s))"

text \<open>
  \<^verbatim>\<open>stop\<close>: \<^verbatim>\<open>del self._cond\<close> raises when the attribute is already gone, before either
  lane is cleared.
\<close>

definition stop :: "MIoTMediaRingBuffer \<Rightarrow> error option \<times> MIoTMediaRingBuffer" where
  "stop b =
     (if \<not> has_cond b then (Some AttributeError, b)
      else (None, b\<lparr>has_cond := False, video_buffer := [], audio_buffer := []\<rparr>))"

text \<open>
  A history of the buffer is a list of calls made on it by its users, one after the other
  (the lock serialises them). A call that raises leaves the buffer as it was and the
  history goes on: the exception is the caller's, the object stays. \<^verbatim>\<open>Step\<close> is run with
  handlers that do nothing, since a handler never touches the buffer.
\<close>

definition ignore_frame :: "MIoTCameraFrameData \<Rightarrow> unit \<Rightarrow> error option \<times> unit" where
  "ignore_frame f s = (None, s)"

datatype call =
    Put_video MIoTCameraFrameData
  | Put_audio MIoTCameraFrameData
  | Step
  | Stop

fun do_call :: "call \<Rightarrow> MIoTMediaRingBuffer \<Rightarrow> MIoTMediaRingBuffer" where
  "do_call (Put_video item) b = snd (put_video item b)"
| "do_call (Put_audio item) b = snd (put_audio item b)"
| "do_call Step b = fst (snd (step ignore_frame ignore_frame b ()))"
| "do_call Stop b = snd (stop b)"

fun run_calls :: "call list \<Rightarrow> MIoTMediaRingBuffer \<Rightarrow> MIoTMediaRingBuffer" where
  "run_calls [] b = b"
| "run_calls (c # cs) b = run_calls cs (do_call c b)"

text \<open>
  \<^verbatim>\<open>MIoTMediaRingBuffer()\<close> as the decoder builds it, with the default \<^verbatim>\<open>maxlen = 20\<close>, and
  a video record that is not a key frame, told apart by its timestamp.
\<close>

definition default_buffer :: MIoTMediaRingBuffer where
  "default_buffer = \<lparr>maxlen = 20, video_buffer = [], audio_buffer = [], has_cond = True\<rparr>"

definition p_frame :: "int \<Rightarrow> MIoTCameraFrameData" where
  "p_frame t = \<lparr>codec_id = VIDEO_H264, frame_type = FRAME_P, timestamp = t, channel = 0, data = []\<rparr>"

definition i_frame :: "int \<Rightarrow> MIoTCameraFrameData" where
  "i_frame t = \<lparr>codec_id = VIDEO_H264, frame_type = FRAME_I, timestamp = t, channel = 0, data = []\<rparr>"

section \<open>The decoder thread\<close>

text \<open>
  The codec, imaging and event-loop libraries are outside the module. What they hold is
  kept as plain data: a codec context is the codec name it was created for and whether
  \<^verbatim>\<open>thread_type = 'auto'\<close> was set on it, a resampler is its format, layout and rate, a
  decoded frame is an opaque value. The plain \<^verbatim>\<open>VideoCodecContext.create\<close> of the software path
  and of the fallback, \<^verbatim>\<open>AudioCodecContext.create\<close>, \<^verbatim>\<open>AudioResampler(...)\<close> and \<^verbatim>\<open>Packet(...)\<close>
  are taken to return; what the other calls answer during one invocation of a handler is
  an input, the record \<open>env\<close>:
  \<^item> \<open>now_ts\<close>: the value of \<^verbatim>\<open>int(time.time()*1000)\<close>;
  \<^item> \<open>video_decode\<close>, \<open>audio_decode\<close>: the frames \<^verbatim>\<open>decode(pkt)\<close> returns, or what it raises;
  \<^item> \<open>to_jpeg\<close>: \<^verbatim>\<open>reformat\<close>, \<^verbatim>\<open>to_image\<close>, \<^verbatim>\<open>save\<close> and \<^verbatim>\<open>getvalue\<close> on a frame, the bytes
    or what one of them raises;
  \<^item> \<open>resample\<close>: the byte strings \<^verbatim>\<open>to_ndarray().tobytes()\<close> of the frames that
    \<^verbatim>\<open>resample(frame)\<close> returns, or what it raises;
  \<^item> \<open>loop_closed\<close>: whether the main event loop is closed, which is what
    \<^verbatim>\<open>is_closed()\<close> returns and what makes \<^verbatim>\<open>call_soon_threadsafe\<close> raise \<^verbatim>\<open>RuntimeError\<close>;
  \<^item> \<open>hw_init_ok\<close>: whether the \<^verbatim>\<open>try\<close> block of \<^verbatim>\<open>_init_hw_decoder\<close>, which creates the
    context and then sets \<^verbatim>\<open>thread_type = 'auto'\<close> on it, runs to its end without raising.
\<close>

datatype VideoFrame = VideoFrame nat

datatype AudioFrame = AudioFrame nat

datatype VideoCodecContext = VideoCodecContext string bool

datatype AudioCodecContext = AudioCodecContext string

datatype AudioResampler = AudioResampler string string nat

record env =
  now_ts :: int
  video_decode :: "error + VideoFrame list"
  to_jpeg :: "VideoFrame \<Rightarrow> error + bytes"
  audio_decode :: "error + AudioFrame list"
  resample :: "AudioFrame \<Rightarrow> error + bytes list"
  loop_closed :: bool
  hw_init_ok :: bool

text \<open>
  A task is one \<^verbatim>\<open>call_soon_threadsafe(create_task, callback(payload, timestamp, channel))\<close>
  that went through. The decoder's state has the attributes of \<^verbatim>\<open>MIoTMediaDecoder\<close> and two
  observation fields: \<open>scheduled\<close>, the tasks handed to the main loop in order, and \<open>logged\<close>,
  the messages written with \<^verbatim>\<open>_LOGGER.error\<close>. \<open>has_audio_callback\<close> says whether the
  attribute \<^verbatim>\<open>_audio_callback\<close> exists: the constructor sets it only when audio is enabled.
\<close>

datatype task =
    Video_task bytes int int
  | Audio_task bytes int int

datatype log_entry =
    Frame_data_handle_error error
  | Failed_to_process_video_frame error

record MIoTMediaDecoder =
  running :: bool
  frame_interval :: int
  enable_hw_accel :: bool
  enable_audio :: bool
  hw_accel_available :: bool
  has_audio_callback :: bool
  queue :: MIoTMediaRingBuffer
  video_decoder :: "VideoCodecContext option"
  audio_decoder :: "AudioCodecContext option"
  resampler :: "AudioResampler option"
  last_jpeg_ts :: int
  scheduled :: "task list"
  logged :: "log_entry list"

text \<open>
  \<^verbatim>\<open>__init__\<close>, given the frame interval, whether an audio callback was passed, the two
  flags and what \<^verbatim>\<open>_detect_hw_acceleration\<close> finds on the machine (it is asked only when
  hardware acceleration is enabled). A main loop is taken to be supplied.
\<close>

definition new_decoder :: "int \<Rightarrow> bool \<Rightarrow> bool \<Rightarrow> bool \<Rightarrow> MIoTMediaDecoder" where
  "new_decoder interval hw_accel audio detected =
     \<lparr>running = False, frame_interval = interval, enable_hw_accel = hw_accel,
      enable_audio = audio, hw_accel_available = (hw_accel \<and> detected),
      has_audio_callback = audio, queue = default_buffer,
      video_decoder = None, audio_decoder = None, resampler = None,
      last_jpeg_ts = 0, scheduled = [], logged = []\<rparr>"

definition MIoTMediaDecoder_init ::
  "int \<Rightarrow> bool \<Rightarrow> bool \<Rightarrow> bool \<Rightarrow> bool \<Rightarrow> error + MIoTMediaDecoder" where
  "MIoTMediaDecoder_init interval audio_callback_given hw_accel audio detected =
     (if audio \<and> \<not> audio_callback_given then Inl MIoTMediaDecoderError
      else Inr (new_decoder interval hw_accel audio detected))"

text \<open>
  \<^verbatim>\<open>_init_hw_decoder\<close>: when the \<^verbatim>\<open>try\<close> block runs to its end the context has
  \<^verbatim>\<open>thread_type = 'auto'\<close>; when it raises, the \<^verbatim>\<open>except\<close> branch logs a warning and returns
  a context from a plain \<^verbatim>\<open>create\<close>, on which nothing was set.
\<close>

definition init_hw_decoder :: "env \<Rightarrow> string \<Rightarrow> VideoCodecContext" where
  "init_hw_decoder e codec_name =
     (if hw_init_ok e then VideoCodecContext codec_name True
      else VideoCodecContext codec_name False)"

text \<open>Lines 280 to 295 of \<^verbatim>\<open>_on_video_callback\<close>: the decoder is created on first use.\<close>

definition bind_video_decoder ::
  "env \<Rightarrow> MIoTCameraFrameData \<Rightarrow> MIoTMediaDecoder \<Rightarrow> MIoTMediaDecoder" where
  "bind_video_decoder e frame_data d =
     (if video_decoder d \<noteq> None then d
      else if codec_id frame_data = VIDEO_H264 then
        (if enable_hw_accel d \<and> hw_accel_available d
         then d\<lparr>video_decoder := Some (init_hw_decoder e ''h264'')\<rparr>
         else d\<lparr>video_decoder := Some (VideoCodecContext ''h264'' False)\<rparr>)
      else if codec_id frame_data = VIDEO_H265 then
        (if enable_hw_accel d \<and> hw_accel_available d
         then d\<lparr>video_decoder := Some (init_hw_decoder e ''hevc'')\<rparr>
         else d\<lparr>video_decoder := Some (VideoCodecContext ''hevc'' False)\<rparr>)
      else d)"

definition on_video_callback ::
  "env \<Rightarrow> MIoTCameraFrameData \<Rightarrow> MIoTMediaDecoder \<Rightarrow> error option \<times> MIoTMediaDecoder" where
  "on_video_callback e frame_data d0 =
     (let d = bind_video_decoder e frame_data d0 in
      case video_decoder d of
        None \<Rightarrow> (Some AttributeError, d)
      | Some ctx \<Rightarrow>
          (case video_decode e of
             Inl err \<Rightarrow> (Some err, d)
           | Inr frames \<Rightarrow>
               (if now_ts e - last_jpeg_ts d \<ge> frame_interval d then
                  (case frames of
                     [] \<Rightarrow> (None, d\<lparr>last_jpeg_ts := now_ts e\<rparr>)
                   | frame # rest \<Rightarrow>
                       (case to_jpeg e frame of
                          Inl err \<Rightarrow>
                            (None, d\<lparr>logged := logged d @ [Failed_to_process_video_frame err]\<rparr>)
                        | Inr jpeg_data \<Rightarrow>
                            (if loop_closed e then
                               (None, d\<lparr>logged := logged d @
                                         [Failed_to_process_video_frame RuntimeError]\<rparr>)
                             else
                               (None, d\<lparr>scheduled := scheduled d @
                                         [Video_task jpeg_data (timestamp frame_data)
                                            (channel frame_data)],
                                       last_jpeg_ts := now_ts e\<rparr>))))
                else (None, d))))"

text \<open>
  The two nested loops of \<^verbatim>\<open>_on_audio_callback\<close>, with \<^verbatim>\<open>pcm_bytes\<close> as accumulator. A missing
  resampler raises at the first frame.
\<close>

fun collect_pcm ::
  "AudioResampler option \<Rightarrow> (AudioFrame \<Rightarrow> error + bytes list) \<Rightarrow> AudioFrame list \<Rightarrow> bytes \<Rightarrow>
   error + bytes" where
  "collect_pcm r rs [] pcm_bytes = Inr pcm_bytes"
| "collect_pcm r rs (frame # frames) pcm_bytes =
     (case r of
        None \<Rightarrow> Inl AttributeError
      | Some _ \<Rightarrow>
          (case rs frame of
             Inl err \<Rightarrow> Inl err
           | Inr rs_frames \<Rightarrow> collect_pcm r rs frames (pcm_bytes @ concat rs_frames)))"

definition bind_audio_decoder :: "MIoTCameraFrameData \<Rightarrow> MIoTMediaDecoder \<Rightarrow> MIoTMediaDecoder" where
  "bind_audio_decoder frame_data d =
     (if audio_decoder d \<noteq> None then d
      else (if codec_id frame_data = AUDIO_OPUS
            then d\<lparr>audio_decoder := Some (AudioCodecContext ''opus'')\<rparr>
            else d)
           \<lparr>resampler := Some (AudioResampler ''s16'' ''mono'' 16000)\<rparr>)"

definition on_audio_callback ::
  "env \<Rightarrow> MIoTCameraFrameData \<Rightarrow> MIoTMediaDecoder \<Rightarrow> error option \<times> MIoTMediaDecoder" where
  "on_audio_callback e frame_data d0 =
     (let d = bind_audio_decoder frame_data d0 in
      case audio_decoder d of
        None \<Rightarrow> (Some AttributeError, d)
      | Some ctx \<Rightarrow>
          (case audio_decode e of
             Inl err \<Rightarrow> (Some err, d)
           | Inr frames \<Rightarrow>
               (case collect_pcm (resampler d) (resample e) frames [] of
                  Inl err \<Rightarrow> (Some err, d)
                | Inr pcm_bytes \<Rightarrow>
                    (if \<not> has_audio_callback d then (Some AttributeError, d)
                     else if loop_closed e then (Some RuntimeError, d)
                     else (None, d\<lparr>scheduled := scheduled d @
                                     [Audio_task pcm_bytes (timestamp frame_data)
                                        (channel frame_data)]\<rparr>)))))"

text \<open>
  One pass through the body of the \<^verbatim>\<open>while\<close> loop of \<^verbatim>\<open>run\<close>. The flag is \<open>False\<close> when the
  body leaves the loop with \<^verbatim>\<open>break\<close> and \<open>True\<close> when control goes back to the loop test.
  Every \<open>error\<close> is an instance of \<^verbatim>\<open>Exception\<close>, so the handler catches all of them.
\<close>

definition run_iteration :: "env \<Rightarrow> MIoTMediaDecoder \<Rightarrow> bool \<times> MIoTMediaDecoder" where
  "run_iteration e d =
     (case step (on_video_callback e) (on_audio_callback e) (queue d) d of
        (None, q, d') \<Rightarrow> (True, d'\<lparr>queue := q\<rparr>)
      | (Some err, q, d') \<Rightarrow>
          (\<not> loop_closed e,
           d'\<lparr>queue := q, logged := logged d' @ [Frame_data_handle_error err]\<rparr>))"

text \<open>
  The loop of \<^verbatim>\<open>run\<close>, for as many passes as there are answers of the outside world in the
  list. \<open>Exited\<close>: the loop was left, by its test or by \<^verbatim>\<open>break\<close>. \<open>Looping\<close>: the list is used
  up and the loop test still holds.
\<close>

datatype loop_state = Exited | Looping

fun run_loop :: "env list \<Rightarrow> MIoTMediaDecoder \<Rightarrow> loop_state \<times> MIoTMediaDecoder" where
  "run_loop [] d = (if running d then Looping else Exited, d)"
| "run_loop (e # es) d =
     (if \<not> running d then (Exited, d)
      else (case run_iteration e d of
              (True, d') \<Rightarrow> run_loop es d'
            | (False, d') \<Rightarrow> (Exited, d')))"

definition run :: "env list \<Rightarrow> MIoTMediaDecoder \<Rightarrow> loop_state \<times> MIoTMediaDecoder" where
  "run es d = run_loop es (d\<lparr>running := True\<rparr>)"

text \<open>
  What the worker does with what \<^verbatim>\<open>step\<close> fetched, and a series of such fetches, each with
  the answers of the outside world during it, as the loop of \<^verbatim>\<open>run\<close> makes them: an
  exception of one handler call is logged there and the next pass starts from the state
  the failed call left. \<open>emission_times\<close> lists the clock readings of the calls of the
  video handler that handed a payload to the video callback.
\<close>

fun handle :: "env \<Rightarrow> fetched \<Rightarrow> MIoTMediaDecoder \<Rightarrow> MIoTMediaDecoder" where
  "handle e (Video_frame frame_data) d = snd (on_video_callback e frame_data d)"
| "handle e (Audio_frame frame_data) d = snd (on_audio_callback e frame_data d)"
| "handle e Waited d = d"

fun feed :: "(env \<times> fetched) list \<Rightarrow> MIoTMediaDecoder \<Rightarrow> MIoTMediaDecoder" where
  "feed [] d = d"
| "feed ((e, x) # rest) d = feed rest (handle e x d)"

definition is_video_task :: "task \<Rightarrow> bool" where
  "is_video_task k = (case k of Video_task p t c \<Rightarrow> True | Audio_task p t c \<Rightarrow> False)"

definition video_tasks :: "MIoTMediaDecoder \<Rightarrow> task list" where
  "video_tasks d = filter is_video_task (scheduled d)"

fun emission_times :: "(env \<times> fetched) list \<Rightarrow> MIoTMediaDecoder \<Rightarrow> int list" where
  "emission_times [] d = []"
| "emission_times ((e, x) # rest) d =
     (if video_tasks (handle e x d) \<noteq> video_tasks d then [now_ts e] else []) @
     emission_times rest (handle e x d)"

text \<open>Every later entry of the list is at least \<open>gap\<close> above every earlier one.\<close>

fun spaced :: "int \<Rightarrow> int list \<Rightarrow> bool" where
  "spaced gap [] = True"
| "spaced gap (t # ts) = (list_all (\<lambda>u. gap \<le> u - t) ts \<and> spaced gap ts)"

text \<open>Answers of the outside world used in the examples.\<close>

definition jpeg_ok :: "VideoFrame \<Rightarrow> error + bytes" where
  "jpeg_ok frame = Inr [0xFF, 0xD8]"

definition jpeg_fails :: "VideoFrame \<Rightarrow> error + bytes" where
  "jpeg_fails frame = Inl (LibraryError 0)"

definition resample_ok :: "AudioFrame \<Rightarrow> error + bytes list" where
  "resample_ok frame = Inr [[1, 2], [3]]"

definition world :: "int \<Rightarrow> VideoFrame list \<Rightarrow> AudioFrame list \<Rightarrow> env" where
  "world t vs as =
     \<lparr>now_ts = t, video_decode = Inr vs, to_jpeg = jpeg_ok,
      audio_decode = Inr as, resample = resample_ok, loop_closed = False,
      hw_init_ok = False\<rparr>"

definition opus_frame :: "int \<Rightarrow> MIoTCameraFrameData" where
  "opus_frame t = \<lparr>codec_id = AUDIO_OPUS, frame_type = FRAME_P, timestamp = t, channel = 0, data = []\<rparr>"

text \<open>
  What every history of a buffer of capacity \<open>n\<close> keeps: the capacity, both lanes within
  it, and empty lanes once the condition is gone.
\<close>

definition buffer_inv :: "int \<Rightarrow> MIoTMediaRingBuffer \<Rightarrow> bool" where
  "buffer_inv n b =
     (maxlen b = n \<and> int (length (video_buffer b)) \<le> n \<and> int (length (audio_buffer b)) \<le> n \<and>
      (has_cond b \<or> (video_buffer b = [] \<and> audio_buffer b = [])))"

text \<open>Buffers and handlers used in the examples.\<close>

definition full_mixed_buffer :: MIoTMediaRingBuffer where
  "full_mixed_buffer =
     \<lparr>maxlen = 3, video_buffer = [i_frame 1, p_frame 2, p_frame 3], audio_buffer = [],
      has_cond = True\<rparr>"

definition full_key_buffer :: MIoTMediaRingBuffer where
  "full_key_buffer =
     \<lparr>maxlen = 2, video_buffer = [i_frame 1, i_frame 2], audio_buffer = [opus_frame 5],
      has_cond = True\<rparr>"

definition audio_only_buffer :: MIoTMediaRingBuffer where
  "audio_only_buffer =
     \<lparr>maxlen = 2, video_buffer = [], audio_buffer = [opus_frame 5, opus_frame 6],
      has_cond = True\<rparr>"

definition note_video :: "MIoTCameraFrameData \<Rightarrow> fetched list \<Rightarrow> error option \<times> fetched list" where
  "note_video f s = (None, s @ [Video_frame f])"

definition note_audio :: "MIoTCameraFrameData \<Rightarrow> fetched list \<Rightarrow> error option \<times> fetched list" where
  "note_audio f s = (None, s @ [Audio_frame f])"

definition jpeg_failing_world :: "int \<Rightarrow> VideoFrame list \<Rightarrow> env" where
  "jpeg_failing_world t vs = (world t vs [])\<lparr>to_jpeg := jpeg_fails\<rparr>"

definition closed_loop_world :: "int \<Rightarrow> VideoFrame list \<Rightarrow> env" where
  "closed_loop_world t vs = (world t vs [])\<lparr>loop_closed := True\<rparr>"

definition other_codec_frame :: "int \<Rightarrow> MIoTCameraFrameData" where
  "other_codec_frame t =
     \<lparr>codec_id = CODEC_OTHER 0, frame_type = FRAME_I, timestamp = t, channel = 0, data = []\<rparr>"

definition waiting_decoder :: MIoTMediaDecoder where
  "waiting_decoder =
     (new_decoder 1000 False True False)
       \<lparr>running := True,
        queue := default_buffer\<lparr>video_buffer := [other_codec_frame 1, i_frame 2]\<rparr>\<rparr>"

definition hw_world :: "int \<Rightarrow> VideoFrame list \<Rightarrow> env" where
  "hw_world t vs = (world t vs [])\<lparr>hw_init_ok := True\<rparr>"

definition hw_waiting_decoder :: MIoTMediaDecoder where
  "hw_waiting_decoder =
     (new_decoder 1000 True True True)
       \<lparr>running := True,
        queue := default_buffer\<lparr>video_buffer := [other_codec_frame 1, i_frame 2]\<rparr>\<rparr>"

definition burst :: "(env \<times> fetched) list" where
  "burst = [(world 5000 [VideoFrame 0] [], Video_frame (i_frame 1)),
            (world 5040 [VideoFrame 1] [], Video_frame (p_frame 2)),
            (world 5050 [] [AudioFrame 0], Audio_frame (opus_frame 3)),
            (world 6100 [VideoFrame 3] [], Video_frame (p_frame 4))]"

section \<open>Properties of the ring buffer\<close>

lemma deque_append_length:
  "int (length xs) \<le> n \<Longrightarrow> int (length (deque_append n xs x)) \<le> n"
  by (auto simp: deque_append_def Let_def)

lemma deque_append_room:
  "int (length xs) < n \<Longrightarrow> deque_append n xs x = xs @ [x]"
  by (simp add: deque_append_def Let_def)

lemma del_first_non_I_removed:
  "fst (del_first_non_I xs) = (\<exists>x\<in>set xs. frame_type x \<noteq> FRAME_I)"
  by (induction xs) (auto split: prod.splits)

lemma del_first_non_I_kept:
  "\<not> fst (del_first_non_I xs) \<Longrightarrow> snd (del_first_non_I xs) = xs"
  by (induction xs) (auto split: prod.splits if_splits)

lemma del_first_non_I_split:
  "fst (del_first_non_I xs) \<Longrightarrow>
     \<exists>pre y post. xs = pre @ y # post \<and> (\<forall>x\<in>set pre. frame_type x = FRAME_I) \<and>
       frame_type y \<noteq> FRAME_I \<and> snd (del_first_non_I xs) = pre @ post"
proof (induction xs)
  case Nil
  then show ?case by simp
next
  case (Cons a xs)
  show ?case
  proof (cases "frame_type a \<noteq> FRAME_I")
    case True
    then have "a # xs = [] @ a # xs \<and> (\<forall>x\<in>set []. frame_type x = FRAME_I) \<and>
       frame_type a \<noteq> FRAME_I \<and> snd (del_first_non_I (a # xs)) = [] @ xs"
      by simp
    then show ?thesis by blast
  next
    case False
    with Cons.prems have "fst (del_first_non_I xs)"
      by (simp add: case_prod_beta)
    from Cons.IH [OF this] obtain pre y post where
      h: "xs = pre @ y # post" "\<forall>x\<in>set pre. frame_type x = FRAME_I"
         "frame_type y \<noteq> FRAME_I" "snd (del_first_non_I xs) = pre @ post"
      by blast
    from False h have "a # xs = (a # pre) @ y # post \<and> (\<forall>x\<in>set (a # pre). frame_type x = FRAME_I) \<and>
       frame_type y \<noteq> FRAME_I \<and> snd (del_first_non_I (a # xs)) = (a # pre) @ post"
      by (simp add: case_prod_beta)
    then show ?thesis by blast
  qed
qed

lemma del_first_non_I_length:
  "fst (del_first_non_I xs) \<Longrightarrow> Suc (length (snd (del_first_non_I xs))) = length xs"
  by (induction xs) (auto split: prod.splits if_splits)

lemma buffer_inv_init: "MIoTMediaRingBuffer_init n = Inr b \<Longrightarrow> buffer_inv n b"
  by (auto simp: MIoTMediaRingBuffer_init_def buffer_inv_def split: if_splits)

lemma buffer_inv_put_video: "buffer_inv n b \<Longrightarrow> buffer_inv n (snd (put_video item b))"
proof -
  assume inv: "buffer_inv n b"
  show ?thesis
  proof (cases "fst (del_first_non_I (video_buffer b))")
    case True
    from del_first_non_I_length [OF True] inv
    have "int (length (snd (del_first_non_I (video_buffer b)))) \<le> n"
      by (simp add: buffer_inv_def)
    from deque_append_length [OF this, of item] inv True show ?thesis
      by (cases "del_first_non_I (video_buffer b)")
         (auto simp: put_video_def buffer_inv_def deque_append_length split: list.splits)
  next
    case False
    from del_first_non_I_kept [OF False] False
    have d: "del_first_non_I (video_buffer b) = (False, video_buffer b)"
      by (cases "del_first_non_I (video_buffer b)") simp
    show ?thesis
      using inv d
      by (auto simp: put_video_def buffer_inv_def deque_append_length split: list.splits
               intro!: deque_append_length)
  qed
qed

lemma buffer_inv_put_audio: "buffer_inv n b \<Longrightarrow> buffer_inv n (snd (put_audio item b))"
  by (auto simp: put_audio_def buffer_inv_def deque_append_length)

lemma buffer_inv_step: "buffer_inv n b \<Longrightarrow> buffer_inv n (fst (snd (step on_v on_a b s)))"
  by (auto simp: step_def step_get_frame_def buffer_inv_def split: list.splits prod.splits)

lemma buffer_inv_stop: "buffer_inv n b \<Longrightarrow> buffer_inv n (snd (stop b))"
  by (auto simp: stop_def buffer_inv_def)

lemma buffer_inv_do_call: "buffer_inv n b \<Longrightarrow> buffer_inv n (do_call c b)"
  by (cases c) (simp_all add: buffer_inv_put_video buffer_inv_put_audio buffer_inv_step buffer_inv_stop)

lemma buffer_inv_run_calls: "buffer_inv n b \<Longrightarrow> buffer_inv n (run_calls cs b)"
  by (induction cs arbitrary: b) (simp_all add: buffer_inv_do_call)

lemma nonempty_lane_has_cond:
  assumes "MIoTMediaRingBuffer_init n = Inr b0"
    and "video_buffer (run_calls cs b0) \<noteq> [] \<or> audio_buffer (run_calls cs b0) \<noteq> []"
  shows "has_cond (run_calls cs b0)"
  using buffer_inv_run_calls [OF buffer_inv_init [OF assms(1)], of cs] assms(2)
  by (auto simp: buffer_inv_def)

text \<open>
  Claim C1. A key frame is put on a video lane that is full, its length being the capacity,
  in a buffer that has not been stopped (in a history from \<^verbatim>\<open>__init__\<close> a lane that holds
  a record belongs to such a buffer, lemma \<open>nonempty_lane_has_cond\<close>). If the lane holds a
  record that is not a key frame, the lane splits as \<open>pre @ y # post\<close> with only key frames
  in \<open>pre\<close> and \<open>y\<close> not a key frame, and the call leaves \<open>pre @ post @ [item]\<close>: the first
  record that is not a key frame is the one removed, every other record stays in order,
  the key frame is at the end. If the lane holds key frames only, and at least one, the
  call removes the oldest record and appends the key frame. In both cases the call raises
  nothing and the length of the lane is the capacity again.
\<close>

theorem put_video_keyframe_full:
  assumes live: "has_cond b"
    and full: "int (length (video_buffer b)) = maxlen b"
    and key: "frame_type item = FRAME_I"
  shows "((\<exists>x\<in>set (video_buffer b). frame_type x \<noteq> FRAME_I) \<longrightarrow>
            (\<exists>pre y post. video_buffer b = pre @ y # post \<and>
               (\<forall>x\<in>set pre. frame_type x = FRAME_I) \<and> frame_type y \<noteq> FRAME_I \<and>
               put_video item b = (None, b\<lparr>video_buffer := pre @ post @ [item]\<rparr>) \<and>
               int (length (pre @ post @ [item])) = maxlen b))
       \<and> (video_buffer b \<noteq> [] \<and> (\<forall>x\<in>set (video_buffer b). frame_type x = FRAME_I) \<longrightarrow>
            put_video item b = (None, b\<lparr>video_buffer := tl (video_buffer b) @ [item]\<rparr>) \<and>
            int (length (tl (video_buffer b) @ [item])) = maxlen b)"
proof (intro conjI impI)
  assume "\<exists>x\<in>set (video_buffer b). frame_type x \<noteq> FRAME_I"
  then have rem: "fst (del_first_non_I (video_buffer b))"
    by (simp add: del_first_non_I_removed)
  from del_first_non_I_split [OF rem] obtain pre y post where
    h: "video_buffer b = pre @ y # post" "\<forall>x\<in>set pre. frame_type x = FRAME_I"
       "frame_type y \<noteq> FRAME_I" "snd (del_first_non_I (video_buffer b)) = pre @ post"
    by blast
  from h(1) full have len: "int (length (pre @ post)) < maxlen b" by auto
  have "del_first_non_I (video_buffer b) = (True, pre @ post)"
    using rem h(4) by (cases "del_first_non_I (video_buffer b)") simp
  then have "put_video item b = (None, b\<lparr>video_buffer := pre @ post @ [item]\<rparr>)"
    using live full key deque_append_room [OF len, of item]
    by (simp add: put_video_def)
  moreover have "int (length (pre @ post @ [item])) = maxlen b"
    using h(1) full by auto
  ultimately show "\<exists>pre y post. video_buffer b = pre @ y # post \<and>
               (\<forall>x\<in>set pre. frame_type x = FRAME_I) \<and> frame_type y \<noteq> FRAME_I \<and>
               put_video item b = (None, b\<lparr>video_buffer := pre @ post @ [item]\<rparr>) \<and>
               int (length (pre @ post @ [item])) = maxlen b"
    using h(1,2,3) by blast
next
  assume a: "video_buffer b \<noteq> [] \<and> (\<forall>x\<in>set (video_buffer b). frame_type x = FRAME_I)"
  then have norem: "\<not> fst (del_first_non_I (video_buffer b))"
    by (simp add: del_first_non_I_removed)
  then have d: "del_first_non_I (video_buffer b) = (False, video_buffer b)"
    using del_first_non_I_kept [OF norem] by (cases "del_first_non_I (video_buffer b)") simp
  from a obtain v vs where vv: "video_buffer b = v # vs" by (cases "video_buffer b") auto
  with full have len: "int (length vs) < maxlen b" by auto
  show "put_video item b = (None, b\<lparr>video_buffer := tl (video_buffer b) @ [item]\<rparr>)"
    using live full key d vv deque_append_room [OF len, of item]
    by (simp add: put_video_def)
next
  assume a: "video_buffer b \<noteq> [] \<and> (\<forall>x\<in>set (video_buffer b). frame_type x = FRAME_I)"
  then show "int (length (tl (video_buffer b) @ [item])) = maxlen b"
    using full by (cases "video_buffer b") auto
qed

theorem put_video_keyframe_full_witness:
  "has_cond full_mixed_buffer \<and>
   int (length (video_buffer full_mixed_buffer)) = maxlen full_mixed_buffer \<and>
   frame_type (i_frame 9) = FRAME_I \<and>
   (\<exists>x\<in>set (video_buffer full_mixed_buffer). frame_type x \<noteq> FRAME_I) \<and>
   put_video (i_frame 9) full_mixed_buffer =
     (None, full_mixed_buffer\<lparr>video_buffer := [i_frame 1, p_frame 3, i_frame 9]\<rparr>) \<and>
   has_cond full_key_buffer \<and>
   int (length (video_buffer full_key_buffer)) = maxlen full_key_buffer \<and>
   video_buffer full_key_buffer \<noteq> [] \<and>
   list_all (\<lambda>x. frame_type x = FRAME_I) (video_buffer full_key_buffer) \<and>
   put_video (i_frame 9) full_key_buffer =
     (None, full_key_buffer\<lparr>video_buffer := [i_frame 2, i_frame 9]\<rparr>)"
  using put_video_keyframe_full [of full_mixed_buffer "i_frame 9"]
    put_video_keyframe_full [of full_key_buffer "i_frame 9"]
  by (simp add: full_mixed_buffer_def full_key_buffer_def i_frame_def p_frame_def
      put_video_def deque_append_def)

text \<open>
  Claim C2. From a buffer that \<^verbatim>\<open>__init__\<close> built with capacity \<open>n\<close>, after every prefix of
  every series of calls, both lanes are at most \<open>n\<close> long. The series may hold calls of
  \<^verbatim>\<open>put_video\<close> and \<^verbatim>\<open>put_audio\<close>, and of \<^verbatim>\<open>step\<close> and \<^verbatim>\<open>stop\<close> as well.
\<close>

theorem lanes_bounded:
  assumes "MIoTMediaRingBuffer_init n = Inr b0"
  shows "int (length (video_buffer (run_calls (take k cs) b0))) \<le> n \<and>
         int (length (audio_buffer (run_calls (take k cs) b0))) \<le> n"
  using buffer_inv_run_calls [OF buffer_inv_init [OF assms], of "take k cs"]
  by (simp add: buffer_inv_def)

theorem lanes_bounded_witness:
  "MIoTMediaRingBuffer_init 20 = Inr default_buffer \<and>
   int (length (video_buffer (run_calls (take 2 [Put_video (i_frame 1), Put_audio (p_frame 2), Step]) default_buffer))) \<le> 20 \<and>
   int (length (audio_buffer (run_calls (take 2 [Put_video (i_frame 1), Put_audio (p_frame 2), Step]) default_buffer))) \<le> 20"
proof -
  have h: "MIoTMediaRingBuffer_init 20 = Inr default_buffer"
    by (simp add: MIoTMediaRingBuffer_init_def default_buffer_def)
  show ?thesis
    using h lanes_bounded [OF h, of 2 "[Put_video (i_frame 1), Put_audio (p_frame 2), Step]"] by simp
qed

text \<open>
  Claim C3, as amended. In a buffer that has not been stopped: if the video lane is not
  empty, \<^verbatim>\<open>step\<close> pops its front record and calls the video handler on it, and the audio
  lane and the audio handler are left alone; if the video lane is empty and the audio lane
  is not, it pops the front audio record and calls the audio handler; if both lanes are
  empty it waits on the condition and returns without calling a handler and without
  raising. The outcome and the new owner state are those of the handler that was called.
  In a buffer that has been stopped, \<^verbatim>\<open>step\<close> raises \<^verbatim>\<open>AttributeError\<close>, calls no handler
  and leaves the buffer and the owner state as they were.
\<close>

theorem step_priority:
  "(has_cond b \<longrightarrow>
      (\<forall>v vs. video_buffer b = v # vs \<longrightarrow>
         step_get_frame b = Inr (Video_frame v, b\<lparr>video_buffer := vs\<rparr>) \<and>
         step on_v on_a b s = (fst (on_v v s), b\<lparr>video_buffer := vs\<rparr>, snd (on_v v s)))
    \<and> (\<forall>a as. video_buffer b = [] \<and> audio_buffer b = a # as \<longrightarrow>
         step_get_frame b = Inr (Audio_frame a, b\<lparr>audio_buffer := as\<rparr>) \<and>
         step on_v on_a b s = (fst (on_a a s), b\<lparr>audio_buffer := as\<rparr>, snd (on_a a s)))
    \<and> (video_buffer b = [] \<and> audio_buffer b = [] \<longrightarrow>
         step_get_frame b = Inr (Waited, b) \<and> step on_v on_a b s = (None, b, s)))
   \<and> (\<not> has_cond b \<longrightarrow>
         step_get_frame b = Inl AttributeError \<and>
         step on_v on_a b s = (Some AttributeError, b, s))"
  by (auto simp: step_def step_get_frame_def split: prod.splits)

theorem step_priority_witness:
  "has_cond full_key_buffer \<and>
   step note_video note_audio full_key_buffer [] =
     (None, full_key_buffer\<lparr>video_buffer := [i_frame 2]\<rparr>, [Video_frame (i_frame 1)]) \<and>
   has_cond audio_only_buffer \<and> video_buffer audio_only_buffer = [] \<and>
   step note_video note_audio audio_only_buffer [] =
     (None, audio_only_buffer\<lparr>audio_buffer := [opus_frame 6]\<rparr>, [Audio_frame (opus_frame 5)]) \<and>
   has_cond default_buffer \<and> video_buffer default_buffer = [] \<and>
   audio_buffer default_buffer = [] \<and>
   step note_video note_audio default_buffer [] = (None, default_buffer, []) \<and>
   has_cond (snd (stop full_key_buffer)) = False \<and>
   step note_video note_audio (snd (stop full_key_buffer)) [] =
     (Some AttributeError, snd (stop full_key_buffer), [])"
  using step_priority [of full_key_buffer note_video note_audio "[]"]
    step_priority [of audio_only_buffer note_video note_audio "[]"]
    step_priority [of default_buffer note_video note_audio "[]"]
    step_priority [of "snd (stop full_key_buffer)" note_video note_audio "[]"]
  by (simp add: full_key_buffer_def audio_only_buffer_def default_buffer_def
      note_video_def note_audio_def stop_def)

text \<open>
  Claim C3 as stated covers every call of \<^verbatim>\<open>step\<close>. After \<^verbatim>\<open>stop\<close> both lanes are empty and
  \<^verbatim>\<open>step\<close> raises \<^verbatim>\<open>AttributeError\<close> at \<^verbatim>\<open>with self._cond\<close> instead of waiting and returning.
\<close>

theorem step_after_stop_counterexample:
  "video_buffer (snd (stop default_buffer)) = [] \<and> audio_buffer (snd (stop default_buffer)) = [] \<and>
   fst (step ignore_frame ignore_frame (snd (stop default_buffer)) ()) = Some AttributeError"
  by (simp add: stop_def step_def step_get_frame_def default_buffer_def)

text \<open>
  Claim C5. A record that is not a key frame is put on a video lane that is full, in a
  buffer that has not been stopped: the call returns without raising and the buffer is
  as it was, so the lane has the same records in the same order and the new record is in
  neither lane.
\<close>

theorem put_video_non_keyframe_full:
  assumes "has_cond b" and "int (length (video_buffer b)) \<ge> maxlen b"
    and "frame_type item \<noteq> FRAME_I"
  shows "put_video item b = (None, b)"
  using assms by (simp add: put_video_def)

theorem put_video_non_keyframe_full_witness:
  "has_cond full_mixed_buffer \<and>
   int (length (video_buffer full_mixed_buffer)) \<ge> maxlen full_mixed_buffer \<and>
   frame_type (p_frame 9) \<noteq> FRAME_I \<and>
   put_video (p_frame 9) full_mixed_buffer = (None, full_mixed_buffer)"
  using put_video_non_keyframe_full [of full_mixed_buffer "p_frame 9"]
  by (simp add: full_mixed_buffer_def p_frame_def)

lemma put_video_non_key_run:
  assumes "has_cond b" and "maxlen b = n" and "int (length (video_buffer b)) \<le> n"
    and "\<forall>f\<in>set fs. frame_type f \<noteq> FRAME_I"
  shows "run_calls (map Put_video fs) b = b\<lparr>video_buffer := take (nat n) (video_buffer b @ fs)\<rparr>"
  using assms
proof (induction fs arbitrary: b)
  case Nil
  then show ?case by simp
next
  case (Cons f fs)
  show ?case
  proof (cases "int (length (video_buffer b)) \<ge> n")
    case True
    with Cons.prems have "put_video f b = (None, b)"
      by (simp add: put_video_def)
    moreover from True Cons.prems have "take (nat n) (video_buffer b @ f # fs) = take (nat n) (video_buffer b @ fs)"
      by simp
    ultimately show ?thesis using Cons.IH [of b] Cons.prems by simp
  next
    case False
    let ?b = "b\<lparr>video_buffer := video_buffer b @ [f]\<rparr>"
    from False Cons.prems have "put_video f b = (None, ?b)"
      by (simp add: put_video_def deque_append_def)
    moreover have "run_calls (map Put_video fs) ?b = ?b\<lparr>video_buffer := take (nat n) (video_buffer ?b @ fs)\<rparr>"
      using False Cons.prems by (intro Cons.IH) auto
    ultimately show ?thesis by simp
  qed
qed

text \<open>
  Claim C6, as amended. Putting 25 video records that are not key frames into a fresh
  buffer of capacity 20 leaves a video lane of length 20 that holds the first 20 records
  pushed, in order: each of the last 5 is discarded on arrival and nothing is evicted.
\<close>

theorem scenario_A_keeps_first_20:
  assumes "length fs = 25" and "\<forall>f\<in>set fs. frame_type f \<noteq> FRAME_I"
  shows "video_buffer (run_calls (map Put_video fs) default_buffer) = take 20 fs \<and>
         length (video_buffer (run_calls (map Put_video fs) default_buffer)) = 20"
  using put_video_non_key_run [of default_buffer 20 fs] assms
  by (simp add: default_buffer_def)

theorem scenario_A_witness:
  "length (map p_frame [1..25]) = 25 \<and>
   list_all (\<lambda>f. frame_type f \<noteq> FRAME_I) (map p_frame [1..25]) \<and>
   video_buffer (run_calls (map Put_video (map p_frame [1..25])) default_buffer) = map p_frame [1..20]"
proof -
  have a: "length (map p_frame [1..25]) = 25" by simp
  have b: "\<forall>f\<in>set (map p_frame [1..25]). frame_type f \<noteq> FRAME_I" by (simp add: p_frame_def)
  have c: "take 20 (map p_frame [1..25]) = map p_frame [1..20]"
    by (simp add: take_map upto.simps)
  show ?thesis using a b c scenario_A_keeps_first_20 [OF a b] by (simp add: list_all_iff)
qed

text \<open>
  Claim C6 as stated has the lane hold the 20 records pushed last. It does not: the lane
  differs from records 6 to 25, and the record pushed last is not in it.
\<close>

theorem scenario_A_counterexample:
  "video_buffer (run_calls (map Put_video (map p_frame [1..25])) default_buffer) \<noteq>
     map p_frame [6..25] \<and>
   p_frame 25 \<notin> set (video_buffer (run_calls (map Put_video (map p_frame [1..25])) default_buffer))"
proof -
  have lane: "video_buffer (run_calls (map Put_video (map p_frame [1..25])) default_buffer) =
      take 20 (map p_frame [1..25])"
    using put_video_non_key_run [of default_buffer 20 "map p_frame [1..25]"]
    by (simp add: default_buffer_def p_frame_def)
  have first: "hd (take 20 (map p_frame [1..25])) = p_frame 1"
    by (simp add: upto.simps)
  have other: "hd (map p_frame [6..25]) = p_frame 6"
    by (simp add: upto.simps)
  have "p_frame 1 \<noteq> p_frame 6"
    by (simp add: p_frame_def)
  with first other have "take 20 (map p_frame [1..25]) \<noteq> map p_frame [6..25]"
    by metis
  moreover have "p_frame 25 \<notin> set (take 20 (map p_frame [1..25]))"
    by (simp add: upto.simps p_frame_def)
  ultimately show ?thesis
    using lane by simp
qed

text \<open>
  Claim C7, as amended. After \<^verbatim>\<open>stop\<close> has been called on a buffer, every call of
  \<^verbatim>\<open>put_video\<close> and of \<^verbatim>\<open>put_audio\<close> raises \<^verbatim>\<open>AttributeError\<close>, because \<^verbatim>\<open>stop\<close> deleted the
  condition that both enter first, and leaves the buffer as it was, with both lanes empty.
\<close>

theorem put_after_stop_raises:
  assumes "has_cond b0" and "b = snd (stop b0)"
  shows "put_video item b = (Some AttributeError, b) \<and> put_audio item b = (Some AttributeError, b) \<and>
         video_buffer b = [] \<and> audio_buffer b = [] \<and>
         video_buffer (snd (put_video item b)) = [] \<and> audio_buffer (snd (put_audio item b)) = []"
  using assms by (simp add: stop_def put_video_def put_audio_def)

theorem put_after_stop_raises_witness:
  "has_cond default_buffer \<and>
   put_video (i_frame 1) (snd (stop default_buffer)) =
     (Some AttributeError, snd (stop default_buffer)) \<and>
   put_audio (opus_frame 1) (snd (stop default_buffer)) =
     (Some AttributeError, snd (stop default_buffer)) \<and>
   video_buffer (snd (stop default_buffer)) = [] \<and>
   audio_buffer (snd (stop default_buffer)) = []"
  using put_after_stop_raises [of default_buffer "snd (stop default_buffer)"]
  by (simp add: default_buffer_def)

text \<open>
  Claim C7 as stated has the calls raise no error. Both raise.
\<close>

theorem put_after_stop_counterexample:
  "fst (put_video (p_frame 1) (snd (stop default_buffer))) = Some AttributeError \<and>
   fst (put_audio (p_frame 1) (snd (stop default_buffer))) = Some AttributeError"
  by (simp add: stop_def put_video_def put_audio_def default_buffer_def)

section \<open>Properties of the decoder thread\<close>

lemma bind_video_decoder_fields:
  "frame_interval (bind_video_decoder e f d) = frame_interval d"
  "last_jpeg_ts (bind_video_decoder e f d) = last_jpeg_ts d"
  "scheduled (bind_video_decoder e f d) = scheduled d"
  "logged (bind_video_decoder e f d) = logged d"
  "queue (bind_video_decoder e f d) = queue d"
  by (simp_all add: bind_video_decoder_def)

lemma bind_audio_decoder_fields:
  "scheduled (bind_audio_decoder f d) = scheduled d"
  "has_audio_callback (bind_audio_decoder f d) = has_audio_callback d"
  "last_jpeg_ts (bind_audio_decoder f d) = last_jpeg_ts d"
  "frame_interval (bind_audio_decoder f d) = frame_interval d"
  by (simp_all add: bind_audio_decoder_def)

lemma on_video_frame_interval:
  "frame_interval (snd (on_video_callback e f d)) = frame_interval d"
  by (simp add: on_video_callback_def Let_def bind_video_decoder_fields
      split: option.splits sum.splits list.splits)

lemma on_video_emits:
  "scheduled (snd (on_video_callback e f d)) \<noteq> scheduled d \<Longrightarrow>
     last_jpeg_ts (snd (on_video_callback e f d)) = now_ts e \<and>
     frame_interval d \<le> now_ts e - last_jpeg_ts d"
  by (auto simp: on_video_callback_def Let_def bind_video_decoder_fields
      split: option.splits sum.splits list.splits if_splits)

lemma on_video_last:
  "last_jpeg_ts (snd (on_video_callback e f d)) = last_jpeg_ts d \<or>
   (last_jpeg_ts (snd (on_video_callback e f d)) = now_ts e \<and>
    frame_interval d \<le> now_ts e - last_jpeg_ts d)"
  by (auto simp: on_video_callback_def Let_def bind_video_decoder_fields
      split: option.splits sum.splits list.splits if_splits)

lemma on_video_tasks:
  "video_tasks (snd (on_video_callback e f d)) =
     video_tasks d @ (if scheduled (snd (on_video_callback e f d)) \<noteq> scheduled d
                      then [last (scheduled (snd (on_video_callback e f d)))] else [])"
  by (auto simp: on_video_callback_def Let_def bind_video_decoder_fields video_tasks_def
      is_video_task_def split: option.splits sum.splits list.splits if_splits)

lemma on_audio_keeps:
  "frame_interval (snd (on_audio_callback e f d)) = frame_interval d"
  "last_jpeg_ts (snd (on_audio_callback e f d)) = last_jpeg_ts d"
  "video_tasks (snd (on_audio_callback e f d)) = video_tasks d"
  by (simp_all add: on_audio_callback_def Let_def bind_audio_decoder_fields video_tasks_def
      is_video_task_def split: option.splits sum.splits)

lemma handle_frame_interval: "frame_interval (handle e x d) = frame_interval d"
  by (cases x) (simp_all add: on_video_frame_interval on_audio_keeps)

lemma handle_emits:
  assumes "video_tasks (handle e x d) \<noteq> video_tasks d"
  shows "last_jpeg_ts (handle e x d) = now_ts e \<and> frame_interval d \<le> now_ts e - last_jpeg_ts d"
proof (cases x)
  case (Video_frame f)
  with assms have "scheduled (snd (on_video_callback e f d)) \<noteq> scheduled d"
    by (auto simp: video_tasks_def)
  from on_video_emits [OF this] Video_frame show ?thesis by simp
next
  case (Audio_frame f)
  with assms show ?thesis by (simp add: on_audio_keeps)
next
  case Waited
  with assms show ?thesis by simp
qed

lemma handle_last:
  "last_jpeg_ts (handle e x d) = last_jpeg_ts d \<or>
   (last_jpeg_ts (handle e x d) = now_ts e \<and> frame_interval d \<le> now_ts e - last_jpeg_ts d)"
  using on_video_last by (cases x) (simp_all add: on_audio_keeps)

lemma handle_tasks:
  "length (video_tasks (handle e x d)) =
     length (video_tasks d) + (if video_tasks (handle e x d) \<noteq> video_tasks d then 1 else 0)"
proof (cases x)
  case (Video_frame f)
  show ?thesis
    using on_video_tasks [of e f d] Video_frame by (auto split: if_splits)
next
  case (Audio_frame f)
  then show ?thesis by (simp add: on_audio_keeps)
next
  case Waited
  then show ?thesis by simp
qed

lemma emission_after_last:
  "0 \<le> frame_interval d \<Longrightarrow>
     list_all (\<lambda>u. frame_interval d \<le> u - last_jpeg_ts d) (emission_times evs d)"
proof (induction evs arbitrary: d)
  case Nil
  show ?case by simp
next
  case (Cons ev evs)
  obtain e x where ev: "ev = (e, x)" by (cases ev)
  let ?d = "handle e x d"
  have I: "frame_interval ?d = frame_interval d" by (rule handle_frame_interval)
  have later: "last_jpeg_ts d \<le> last_jpeg_ts ?d"
    using handle_last [of e x d] Cons.prems by auto
  have "list_all (\<lambda>u. frame_interval ?d \<le> u - last_jpeg_ts ?d) (emission_times evs ?d)"
    using Cons.prems I by (intro Cons.IH) simp
  then have rest: "list_all (\<lambda>u. frame_interval d \<le> u - last_jpeg_ts d) (emission_times evs ?d)"
    using later I by (auto simp: list_all_iff)
  have head: "video_tasks ?d \<noteq> video_tasks d \<Longrightarrow> frame_interval d \<le> now_ts e - last_jpeg_ts d"
    using handle_emits [of e x d] by simp
  show ?case using rest head ev by simp
qed

lemma spaced_nonneg_interval:
  "0 \<le> frame_interval d \<Longrightarrow> spaced (frame_interval d) (emission_times evs d)"
proof (induction evs arbitrary: d)
  case Nil
  show ?case by simp
next
  case (Cons ev evs)
  obtain e x where ev: "ev = (e, x)" by (cases ev)
  let ?d = "handle e x d"
  have I: "frame_interval ?d = frame_interval d" by (rule handle_frame_interval)
  have rest: "spaced (frame_interval d) (emission_times evs ?d)"
    using Cons.IH [of ?d] Cons.prems I by simp
  have "video_tasks ?d \<noteq> video_tasks d \<Longrightarrow>
      list_all (\<lambda>u. frame_interval d \<le> u - now_ts e) (emission_times evs ?d)"
    using emission_after_last [of ?d evs] handle_emits [of e x d] Cons.prems I by simp
  then show ?case using rest ev by simp
qed

lemma emission_times_readings:
  "set (emission_times evs d) \<subseteq> set (map (now_ts \<circ> fst) evs)"
proof (induction evs arbitrary: d)
  case Nil
  show ?case by simp
next
  case (Cons ev evs)
  obtain e x where ev: "ev = (e, x)" by (cases ev)
  show ?case using Cons.IH [of "handle e x d"] ev
    by auto
qed

lemma spaced_sorted_clock:
  "frame_interval d \<le> 0 \<Longrightarrow> sorted (map (now_ts \<circ> fst) evs) \<Longrightarrow>
     spaced (frame_interval d) (emission_times evs d)"
proof (induction evs arbitrary: d)
  case Nil
  show ?case by simp
next
  case (Cons ev evs)
  obtain e x where ev: "ev = (e, x)" by (cases ev)
  let ?d = "handle e x d"
  have I: "frame_interval ?d = frame_interval d" by (rule handle_frame_interval)
  have rest: "spaced (frame_interval d) (emission_times evs ?d)"
    using Cons.IH [of ?d] Cons.prems I by simp
  have "\<forall>u\<in>set (emission_times evs ?d). now_ts e \<le> u"
    using emission_times_readings [of evs ?d] Cons.prems(2) ev by auto
  then have "list_all (\<lambda>u. frame_interval d \<le> u - now_ts e) (emission_times evs ?d)"
    using Cons.prems(1) by (auto simp: list_all_iff)
  then show ?case using rest ev by simp
qed

lemma emissions_counted:
  "length (video_tasks (feed evs d)) = length (video_tasks d) + length (emission_times evs d)"
proof (induction evs arbitrary: d)
  case Nil
  show ?case by simp
next
  case (Cons ev evs)
  obtain e x where ev: "ev = (e, x)" by (cases ev)
  show ?case using Cons.IH [of "handle e x d"] handle_tasks [of e x d] ev
    by simp
qed

text \<open>
  Claim C4. The worker handles any series of fetches (video records, audio records and
  idle waits), from any state of the decoder, with any answers of the decode and imaging
  libraries. Time is what the video handler itself reads: the time of a forward is the
  value of \<^verbatim>\<open>now_ts\<close> in the call that made it. If the configured interval is not negative,
  or if the clock readings never decrease, then every forward to the video callback is at
  least \<^verbatim>\<open>frame_interval\<close> milliseconds after every earlier one, however many records are
  decoded in between. The lemma \<open>emissions_counted\<close> says that \<open>emission_times\<close> has one
  entry for each video task scheduled.
\<close>

theorem video_emissions_spaced:
  assumes "0 \<le> frame_interval d \<or> sorted (map (now_ts \<circ> fst) evs)"
  shows "spaced (frame_interval d) (emission_times evs d)"
  using assms spaced_nonneg_interval [of d evs] spaced_sorted_clock [of d evs]
  by (cases "0 \<le> frame_interval d") auto

theorem video_emissions_spaced_witness:
  "0 \<le> frame_interval (new_decoder 1000 False True False) \<and>
   emission_times burst (new_decoder 1000 False True False) = [5000, 6100] \<and>
   spaced 1000 [5000, 6100]"
proof -
  have t: "emission_times burst (new_decoder 1000 False True False) = [5000, 6100]"
    by (simp add: burst_def new_decoder_def world_def jpeg_ok_def resample_ok_def
        i_frame_def p_frame_def opus_frame_def video_tasks_def is_video_task_def
        on_video_callback_def bind_video_decoder_def init_hw_decoder_def
        on_audio_callback_def bind_audio_decoder_def Let_def)
  show ?thesis
    using t video_emissions_spaced [of "new_decoder 1000 False True False" burst]
    by (simp add: new_decoder_def)
qed

text \<open>
  Claim C8, as amended. A video record is handled at an emission tick, with a decoder that
  is bound or that this record binds, and \<^verbatim>\<open>decode\<close> returns. If it returns no frame,
  \<^verbatim>\<open>_last_jpeg_ts\<close> becomes the clock reading and nothing is forwarded. If the first frame
  is converted and the task is scheduled, \<^verbatim>\<open>_last_jpeg_ts\<close> becomes the clock reading and one
  task is added. If the conversion raises, or scheduling raises because the loop is closed,
  the exception is caught, nothing is forwarded and \<^verbatim>\<open>_last_jpeg_ts\<close> keeps its value.
\<close>

theorem last_jpeg_ts_at_emission_tick:
  assumes bound: "video_decoder (bind_video_decoder e f d) \<noteq> None"
    and dec: "video_decode e = Inr frames"
    and tick: "frame_interval d \<le> now_ts e - last_jpeg_ts d"
  shows "(frames = [] \<longrightarrow>
            on_video_callback e f d = (None, (bind_video_decoder e f d)\<lparr>last_jpeg_ts := now_ts e\<rparr>))
       \<and> (\<forall>fr rest jpeg. frames = fr # rest \<and> to_jpeg e fr = Inr jpeg \<and> \<not> loop_closed e \<longrightarrow>
            on_video_callback e f d =
              (None, (bind_video_decoder e f d)
                 \<lparr>scheduled := scheduled d @ [Video_task jpeg (timestamp f) (channel f)],
                  last_jpeg_ts := now_ts e\<rparr>))
       \<and> (\<forall>fr rest. frames = fr # rest \<and> (isl (to_jpeg e fr) \<or> loop_closed e) \<longrightarrow>
            fst (on_video_callback e f d) = None \<and>
            last_jpeg_ts (snd (on_video_callback e f d)) = last_jpeg_ts d \<and>
            scheduled (snd (on_video_callback e f d)) = scheduled d)"
proof -
  obtain ctx where c: "video_decoder (bind_video_decoder e f d) = Some ctx"
    using bound by auto
  show ?thesis
    using c dec tick
    by (auto simp: on_video_callback_def Let_def bind_video_decoder_fields split: sum.splits)
qed

theorem last_jpeg_ts_at_emission_tick_witness:
  "video_decoder (bind_video_decoder (world 5000 [] []) (i_frame 1)
     (new_decoder 1000 False True False)) \<noteq> None \<and>
   frame_interval (new_decoder 1000 False True False) \<le>
     5000 - last_jpeg_ts (new_decoder 1000 False True False) \<and>
   last_jpeg_ts (snd (on_video_callback (world 5000 [] []) (i_frame 1)
     (new_decoder 1000 False True False))) = 5000 \<and>
   last_jpeg_ts (snd (on_video_callback (world 5000 [VideoFrame 0] []) (i_frame 1)
     (new_decoder 1000 False True False))) = 5000 \<and>
   scheduled (snd (on_video_callback (world 5000 [VideoFrame 0] []) (i_frame 1)
     (new_decoder 1000 False True False))) = [Video_task [0xFF, 0xD8] 1 0] \<and>
   last_jpeg_ts (snd (on_video_callback (jpeg_failing_world 5000 [VideoFrame 0]) (i_frame 1)
     (new_decoder 1000 False True False))) = 0 \<and>
   last_jpeg_ts (snd (on_video_callback (closed_loop_world 5000 [VideoFrame 0]) (i_frame 1)
     (new_decoder 1000 False True False))) = 0"
proof -
  have b: "video_decoder (bind_video_decoder w (i_frame 1) (new_decoder 1000 False True False)) \<noteq> None"
    for w
    by (simp add: bind_video_decoder_def new_decoder_def i_frame_def)
  have t: "frame_interval (new_decoder 1000 False True False) \<le>
     5000 - last_jpeg_ts (new_decoder 1000 False True False)"
    by (simp add: new_decoder_def)
  show ?thesis
    using b t
      last_jpeg_ts_at_emission_tick [where f = "i_frame 1" and
        d = "new_decoder 1000 False True False" and e = "world 5000 [] []" and
        frames = "[]"]
      last_jpeg_ts_at_emission_tick [where f = "i_frame 1" and
        d = "new_decoder 1000 False True False" and e = "world 5000 [VideoFrame 0] []" and
        frames = "[VideoFrame 0]"]
      last_jpeg_ts_at_emission_tick [where f = "i_frame 1" and
        d = "new_decoder 1000 False True False" and e = "jpeg_failing_world 5000 [VideoFrame 0]" and
        frames = "[VideoFrame 0]"]
      last_jpeg_ts_at_emission_tick [where f = "i_frame 1" and
        d = "new_decoder 1000 False True False" and e = "closed_loop_world 5000 [VideoFrame 0]" and
        frames = "[VideoFrame 0]"]
    by (simp add: world_def jpeg_failing_world_def closed_loop_world_def jpeg_ok_def jpeg_fails_def
        bind_video_decoder_fields i_frame_def new_decoder_def)
qed

text \<open>
  Claim C8 as stated has \<^verbatim>\<open>_last_jpeg_ts\<close> advance at every emission tick whatever the
  conversion does. When the conversion raises at a tick with clock reading 5000, the
  handler returns and \<^verbatim>\<open>_last_jpeg_ts\<close> is still 0.
\<close>

theorem last_jpeg_ts_counterexample:
  "frame_interval (new_decoder 1000 False True False) \<le>
     now_ts (jpeg_failing_world 5000 [VideoFrame 0]) - last_jpeg_ts (new_decoder 1000 False True False) \<and>
   fst (on_video_callback (jpeg_failing_world 5000 [VideoFrame 0]) (i_frame 1)
          (new_decoder 1000 False True False)) = None \<and>
   last_jpeg_ts (snd (on_video_callback (jpeg_failing_world 5000 [VideoFrame 0]) (i_frame 1)
          (new_decoder 1000 False True False))) = 0 \<and>
   now_ts (jpeg_failing_world 5000 [VideoFrame 0]) = 5000"
  by (simp add: new_decoder_def jpeg_failing_world_def world_def jpeg_fails_def i_frame_def
      on_video_callback_def bind_video_decoder_def Let_def)

lemma collect_pcm_ok:
  "map rs frames = map Inr bufs \<Longrightarrow> r \<noteq> None \<or> frames = [] \<Longrightarrow>
     collect_pcm r rs frames acc = Inr (acc @ concat (concat bufs))"
proof (induction frames arbitrary: bufs acc)
  case Nil
  then show ?case by simp
next
  case (Cons fr frames)
  from Cons.prems(1) obtain b bs where bufs: "bufs = b # bs" "rs fr = Inr b" "map rs frames = map Inr bs"
    by (cases bufs) auto
  from Cons.prems(2) obtain x where r: "r = Some x" by auto
  have "collect_pcm r rs frames (acc @ concat b) = Inr ((acc @ concat b) @ concat (concat bs))"
    using bufs(3) r by (intro Cons.IH) auto
  then show ?case using bufs r by simp
qed

lemma bind_audio_decoder_bound:
  "(audio_decoder d \<noteq> None \<and> resampler d \<noteq> None) \<or>
   (audio_decoder d = None \<and> codec_id f = AUDIO_OPUS) \<Longrightarrow>
     audio_decoder (bind_audio_decoder f d) \<noteq> None \<and> resampler (bind_audio_decoder f d) \<noteq> None"
  by (auto simp: bind_audio_decoder_def)

text \<open>
  Claim C9, as amended. An audio record is handled with an audio decoder that is bound
  together with its resampler, or with none bound and a record whose codec is Opus, which
  binds both; \<^verbatim>\<open>decode\<close> returns \<open>frames\<close>, resampling returns the buffers \<open>bufs\<close>, the audio
  callback is set and the loop is open. Then the handler returns without raising and adds
  exactly one task, the audio callback on the concatenation of all buffers in order with
  the record's timestamp and channel; with no frame the payload is empty. The result is
  the same for every clock reading \<open>t\<close>, every \<^verbatim>\<open>_last_jpeg_ts\<close> \<open>l\<close> and every
  \<^verbatim>\<open>_frame_interval\<close> \<open>i\<close>: nothing gates the audio path. A record whose codec is not Opus,
  handled while no audio decoder is bound, binds the resampler only, raises
  \<^verbatim>\<open>AttributeError\<close> and schedules nothing.
\<close>

theorem audio_scheduled_once:
  "(((audio_decoder d \<noteq> None \<and> resampler d \<noteq> None) \<or>
     (audio_decoder d = None \<and> codec_id f = AUDIO_OPUS)) \<and>
    audio_decode e = Inr frames \<and> map (resample e) frames = map Inr bufs \<and>
    has_audio_callback d \<and> \<not> loop_closed e \<longrightarrow>
      on_audio_callback (e\<lparr>now_ts := t\<rparr>) f (d\<lparr>last_jpeg_ts := l, frame_interval := i\<rparr>) =
        (None, (bind_audio_decoder f (d\<lparr>last_jpeg_ts := l, frame_interval := i\<rparr>))
           \<lparr>scheduled := scheduled d @
              [Audio_task (concat (concat bufs)) (timestamp f) (channel f)]\<rparr>))
   \<and> (audio_decoder d = None \<and> codec_id f \<noteq> AUDIO_OPUS \<longrightarrow>
        on_audio_callback e f d =
          (Some AttributeError, d\<lparr>resampler := Some (AudioResampler ''s16'' ''mono'' 16000)\<rparr>) \<and>
        scheduled (snd (on_audio_callback e f d)) = scheduled d)"
proof (intro conjI impI)
  assume h: "((audio_decoder d \<noteq> None \<and> resampler d \<noteq> None) \<or>
     (audio_decoder d = None \<and> codec_id f = AUDIO_OPUS)) \<and>
    audio_decode e = Inr frames \<and> map (resample e) frames = map Inr bufs \<and>
    has_audio_callback d \<and> \<not> loop_closed e"
  let ?d = "d\<lparr>last_jpeg_ts := l, frame_interval := i\<rparr>"
  have "(audio_decoder ?d \<noteq> None \<and> resampler ?d \<noteq> None) \<or>
        (audio_decoder ?d = None \<and> codec_id f = AUDIO_OPUS)"
    using h by simp
  from bind_audio_decoder_bound [OF this]
  obtain ctx where c: "audio_decoder (bind_audio_decoder f ?d) = Some ctx"
    and r: "resampler (bind_audio_decoder f ?d) \<noteq> None"
    by auto
  have rs: "map (resample e) frames = map Inr bufs"
    using h by simp
  have pcm: "collect_pcm (resampler (bind_audio_decoder f ?d)) (resample e) frames [] =
      Inr (concat (concat bufs))"
    using collect_pcm_ok [OF rs, of "resampler (bind_audio_decoder f ?d)" "[]"] r by simp
  show "on_audio_callback (e\<lparr>now_ts := t\<rparr>) f ?d =
        (None, (bind_audio_decoder f ?d)
           \<lparr>scheduled := scheduled d @
              [Audio_task (concat (concat bufs)) (timestamp f) (channel f)]\<rparr>)"
    using c h pcm
    by (simp add: on_audio_callback_def Let_def bind_audio_decoder_fields)
next
  assume u: "audio_decoder d = None \<and> codec_id f \<noteq> AUDIO_OPUS"
  then show "on_audio_callback e f d =
      (Some AttributeError, d\<lparr>resampler := Some (AudioResampler ''s16'' ''mono'' 16000)\<rparr>)"
    by (simp add: on_audio_callback_def bind_audio_decoder_def Let_def)
next
  assume u: "audio_decoder d = None \<and> codec_id f \<noteq> AUDIO_OPUS"
  then show "scheduled (snd (on_audio_callback e f d)) = scheduled d"
    by (simp add: on_audio_callback_def bind_audio_decoder_def Let_def)
qed

theorem audio_scheduled_once_witness:
  "audio_decoder (new_decoder 1000 False True False) = None \<and>
   codec_id (opus_frame 7) = AUDIO_OPUS \<and>
   has_audio_callback (new_decoder 1000 False True False) \<and>
   scheduled (snd (on_audio_callback (world 5000 [] [AudioFrame 0, AudioFrame 1]) (opus_frame 7)
     (new_decoder 1000 False True False))) = [Audio_task [1, 2, 3, 1, 2, 3] 7 0] \<and>
   scheduled (snd (on_audio_callback (world 5000 [] []) (opus_frame 7)
     (new_decoder 1000 False True False))) = [Audio_task [] 7 0] \<and>
   codec_id (other_codec_frame 8) = CODEC_OTHER 0 \<and>
   on_audio_callback (world 5000 [] [AudioFrame 0]) (other_codec_frame 8)
     (new_decoder 1000 False True False) =
     (Some AttributeError,
      (new_decoder 1000 False True False)\<lparr>resampler := Some (AudioResampler ''s16'' ''mono'' 16000)\<rparr>)"
  using audio_scheduled_once [where d = "new_decoder 1000 False True False" and
      f = "opus_frame 7" and e = "world 5000 [] [AudioFrame 0, AudioFrame 1]" and
      frames = "[AudioFrame 0, AudioFrame 1]" and bufs = "[[[1, 2], [3]], [[1, 2], [3]]]" and
      t = 5000 and l = 0 and i = 1000]
    audio_scheduled_once [where d = "new_decoder 1000 False True False" and
      f = "opus_frame 7" and e = "world 5000 [] []" and frames = "[]" and bufs = "[]" and
      t = 5000 and l = 0 and i = 1000]
    audio_scheduled_once [where d = "new_decoder 1000 False True False" and
      f = "other_codec_frame 8" and e = "world 5000 [] [AudioFrame 0]"]
  by (simp add: world_def resample_ok_def new_decoder_def opus_frame_def other_codec_frame_def
      bind_audio_decoder_fields)

text \<open>
  Claim C9 as stated covers every audio record. With no audio decoder bound, a record whose
  codec is not Opus binds none (the resampler only), \<^verbatim>\<open>decode\<close> is called on \<^verbatim>\<open>None\<close>, the
  handler raises \<^verbatim>\<open>AttributeError\<close> and no task is scheduled.
\<close>

theorem audio_unbound_counterexample:
  "on_audio_callback (world 5000 [] [AudioFrame 0]) (other_codec_frame 1)
     (new_decoder 1000 False True False) =
     (Some AttributeError,
      (new_decoder 1000 False True False)\<lparr>resampler := Some (AudioResampler ''s16'' ''mono'' 16000)\<rparr>) \<and>
   scheduled (snd (on_audio_callback (world 5000 [] [AudioFrame 0]) (other_codec_frame 1)
     (new_decoder 1000 False True False))) = [] \<and>
   fst (on_audio_callback (world 5000 [] [AudioFrame 0]) (i_frame 1)
     (new_decoder 1000 False True False)) = Some AttributeError \<and>
   scheduled (snd (on_audio_callback (world 5000 [] [AudioFrame 0]) (i_frame 1)
     (new_decoder 1000 False True False))) = []"
  by (simp add: on_audio_callback_def bind_audio_decoder_def new_decoder_def other_codec_frame_def
      i_frame_def world_def Let_def)

lemma unsupported_codec_raises:
  assumes "video_decoder d = None" and "codec_id f \<noteq> VIDEO_H264" and "codec_id f \<noteq> VIDEO_H265"
  shows "on_video_callback e f d = (Some AttributeError, d)"
  using assms by (simp add: on_video_callback_def bind_video_decoder_def Let_def)

lemma supported_codec_binds:
  assumes "video_decoder d = None" and "codec_id g = VIDEO_H264 \<or> codec_id g = VIDEO_H265"
  shows "video_decoder (snd (on_video_callback e g d)) =
           Some (VideoCodecContext (if codec_id g = VIDEO_H264 then ''h264'' else ''hevc'')
                   (enable_hw_accel d \<and> hw_accel_available d \<and> hw_init_ok e))"
  using assms
  by (auto simp: on_video_callback_def bind_video_decoder_def init_hw_decoder_def Let_def
      split: sum.splits list.splits)

text \<open>
  Claim C10. No video decoder is bound and the record \<open>f\<close> at the front of the video lane
  has a codec that is neither H.264 nor H.265. The handler binds nothing and raises
  \<^verbatim>\<open>AttributeError\<close>, leaving the decoder as it was. The pass of the loop of \<^verbatim>\<open>run\<close> that
  takes \<open>f\<close> catches the exception, logs it, and goes back to the loop test unless the
  event loop is closed, in which case it leaves the loop. In the state \<open>d'\<close> after that
  pass the decoder is still unbound, and a later record \<open>g\<close> with H.264 or H.265 binds
  the decoder for its codec: with \<^verbatim>\<open>thread_type = 'auto'\<close> when hardware acceleration is
  enabled and available and \<^verbatim>\<open>_init_hw_decoder\<close> does not fall back, plainly otherwise.
\<close>

theorem unsupported_first_codec:
  assumes unbound: "video_decoder d = None"
    and codec: "codec_id f \<noteq> VIDEO_H264 \<and> codec_id f \<noteq> VIDEO_H265"
    and front: "has_cond (queue d) \<and> video_buffer (queue d) = f # rest"
    and live: "running d"
    and later: "codec_id g = VIDEO_H264 \<or> codec_id g = VIDEO_H265"
    and after: "d' = d\<lparr>queue := (queue d)\<lparr>video_buffer := rest\<rparr>,
                      logged := logged d @ [Frame_data_handle_error AttributeError]\<rparr>"
  shows "on_video_callback e f d = (Some AttributeError, d) \<and>
         run_iteration e d = (\<not> loop_closed e, d') \<and>
         run_loop (e # es) d = (if loop_closed e then (Exited, d') else run_loop es d') \<and>
         video_decoder d' = None \<and>
         video_decoder (snd (on_video_callback e2 g d')) =
           Some (VideoCodecContext (if codec_id g = VIDEO_H264 then ''h264'' else ''hevc'')
                   (enable_hw_accel d \<and> hw_accel_available d \<and> hw_init_ok e2))"
proof -
  have raise: "on_video_callback e f d = (Some AttributeError, d)"
    using unbound codec by (simp add: unsupported_codec_raises)
  have get: "step_get_frame (queue d) = Inr (Video_frame f, (queue d)\<lparr>video_buffer := rest\<rparr>)"
    using front by (simp add: step_get_frame_def)
  have iter: "run_iteration e d = (\<not> loop_closed e, d')"
    using raise get after by (simp add: run_iteration_def step_def)
  have loop: "run_loop (e # es) d = (if loop_closed e then (Exited, d') else run_loop es d')"
    using iter live by simp
  have still: "video_decoder d' = None"
    using unbound after by simp
  have "video_decoder (snd (on_video_callback e2 g d')) =
           Some (VideoCodecContext (if codec_id g = VIDEO_H264 then ''h264'' else ''hevc'')
                   (enable_hw_accel d' \<and> hw_accel_available d' \<and> hw_init_ok e2))"
    using still later by (rule supported_codec_binds)
  then show ?thesis
    using raise iter loop still after by simp
qed

theorem unsupported_first_codec_witness:
  "video_decoder waiting_decoder = None \<and>
   codec_id (other_codec_frame 1) \<noteq> VIDEO_H264 \<and> codec_id (other_codec_frame 1) \<noteq> VIDEO_H265 \<and>
   has_cond (queue waiting_decoder) \<and>
   video_buffer (queue waiting_decoder) = [other_codec_frame 1, i_frame 2] \<and>
   running waiting_decoder \<and>
   codec_id (i_frame 2) = VIDEO_H264 \<and>
   run_iteration (world 5000 [VideoFrame 0] []) waiting_decoder =
     (True, waiting_decoder\<lparr>queue := default_buffer\<lparr>video_buffer := [i_frame 2]\<rparr>,
                            logged := [Frame_data_handle_error AttributeError]\<rparr>) \<and>
   fst (run_iteration (closed_loop_world 5000 [VideoFrame 0]) waiting_decoder) = False \<and>
   video_decoder (snd (on_video_callback (world 5040 [VideoFrame 1] []) (i_frame 2)
     (waiting_decoder\<lparr>queue := default_buffer\<lparr>video_buffer := [i_frame 2]\<rparr>,
                      logged := [Frame_data_handle_error AttributeError]\<rparr>))) =
     Some (VideoCodecContext ''h264'' False) \<and>
   video_decoder hw_waiting_decoder = None \<and> has_cond (queue hw_waiting_decoder) \<and>
   video_buffer (queue hw_waiting_decoder) = [other_codec_frame 1, i_frame 2] \<and>
   running hw_waiting_decoder \<and>
   enable_hw_accel hw_waiting_decoder \<and> hw_accel_available hw_waiting_decoder \<and>
   video_decoder (snd (on_video_callback (world 5040 [VideoFrame 1] []) (i_frame 2)
     (hw_waiting_decoder\<lparr>queue := default_buffer\<lparr>video_buffer := [i_frame 2]\<rparr>,
                         logged := [Frame_data_handle_error AttributeError]\<rparr>))) =
     Some (VideoCodecContext ''h264'' False) \<and>
   video_decoder (snd (on_video_callback (hw_world 5040 [VideoFrame 1]) (i_frame 2)
     (hw_waiting_decoder\<lparr>queue := default_buffer\<lparr>video_buffer := [i_frame 2]\<rparr>,
                         logged := [Frame_data_handle_error AttributeError]\<rparr>))) =
     Some (VideoCodecContext ''h264'' True)"
proof -
  have a: "video_decoder waiting_decoder = None"
    by (simp add: waiting_decoder_def new_decoder_def)
  have b: "codec_id (other_codec_frame 1) \<noteq> VIDEO_H264 \<and> codec_id (other_codec_frame 1) \<noteq> VIDEO_H265"
    by (simp add: other_codec_frame_def)
  have c: "has_cond (queue waiting_decoder) \<and>
      video_buffer (queue waiting_decoder) = other_codec_frame 1 # [i_frame 2]"
    by (simp add: waiting_decoder_def default_buffer_def)
  have r: "running waiting_decoder"
    by (simp add: waiting_decoder_def)
  have g: "codec_id (i_frame 2) = VIDEO_H264 \<or> codec_id (i_frame 2) = VIDEO_H265"
    by (simp add: i_frame_def)
  have d': "waiting_decoder\<lparr>queue := default_buffer\<lparr>video_buffer := [i_frame 2]\<rparr>,
                            logged := [Frame_data_handle_error AttributeError]\<rparr> =
      waiting_decoder\<lparr>queue := (queue waiting_decoder)\<lparr>video_buffer := [i_frame 2]\<rparr>,
                      logged := logged waiting_decoder @ [Frame_data_handle_error AttributeError]\<rparr>"
    by (simp add: waiting_decoder_def new_decoder_def)
  have ha: "video_decoder hw_waiting_decoder = None"
    by (simp add: hw_waiting_decoder_def new_decoder_def)
  have hc: "has_cond (queue hw_waiting_decoder) \<and>
      video_buffer (queue hw_waiting_decoder) = other_codec_frame 1 # [i_frame 2]"
    by (simp add: hw_waiting_decoder_def default_buffer_def)
  have hr: "running hw_waiting_decoder"
    by (simp add: hw_waiting_decoder_def)
  have hd': "hw_waiting_decoder\<lparr>queue := default_buffer\<lparr>video_buffer := [i_frame 2]\<rparr>,
                            logged := [Frame_data_handle_error AttributeError]\<rparr> =
      hw_waiting_decoder\<lparr>queue := (queue hw_waiting_decoder)\<lparr>video_buffer := [i_frame 2]\<rparr>,
                      logged := logged hw_waiting_decoder @ [Frame_data_handle_error AttributeError]\<rparr>"
    by (simp add: hw_waiting_decoder_def new_decoder_def)
  have h: "enable_hw_accel waiting_decoder = False" "\<not> loop_closed (world 5000 [VideoFrame 0] [])"
      "loop_closed (closed_loop_world 5000 [VideoFrame 0])"
      "enable_hw_accel hw_waiting_decoder" "hw_accel_available hw_waiting_decoder"
      "\<not> hw_init_ok (world 5040 [VideoFrame 1] [])" "hw_init_ok (hw_world 5040 [VideoFrame 1])"
    by (simp_all add: waiting_decoder_def hw_waiting_decoder_def new_decoder_def world_def
        closed_loop_world_def hw_world_def)
  show ?thesis
    using a b c r g h ha hc hr
      unsupported_first_codec [OF a b c r g d', of "world 5000 [VideoFrame 0] []" "[]"
        "world 5040 [VideoFrame 1] []"]
      unsupported_first_codec [OF a b c r g d', of "closed_loop_world 5000 [VideoFrame 0]" "[]"
        "world 5040 [VideoFrame 1] []"]
      unsupported_first_codec [OF ha b hc hr g hd', of "world 5000 [VideoFrame 0] []" "[]"
        "world 5040 [VideoFrame 1] []"]
      unsupported_first_codec [OF ha b hc hr g hd', of "world 5000 [VideoFrame 0] []" "[]"
        "hw_world 5040 [VideoFrame 1]"]
    by (simp add: i_frame_def)
qed

end
